theory Spec2Isabelle
  imports
    Complex_Main
    "HOL-Library.AList"
    "HOL-Library.Multiset"
    "HOL-Library.Sublist"
begin

section \<open>Data model\<close>

text \<open>
  The exceptions that the modelled functions of \<^verbatim>\<open>stripe-reporter.py\<close> can raise. A function
  that may raise returns \<open>error + 'a\<close>, with \<open>Inl\<close> for the exception.
\<close>

datatype error =
  ValueError | IndexError | AttributeError | TypeError | KeyError | ZeroDivisionError
  | OverflowError

text \<open>Product name used when the intent is a direct payment without a checkout session.\<close>

definition DIRECT_CHARGE :: string where
  "DIRECT_CHARGE = ''SudoSOS Topup''"

text \<open>
  What \<^verbatim>\<open>transaction.source.payment_intent\<close> can be: the source has no such attribute
  (\<^verbatim>\<open>hasattr\<close> is false), the attribute is \<^verbatim>\<open>None\<close>, or it is the expanded payment intent,
  of which only the \<^verbatim>\<open>id\<close> is read.
\<close>

datatype payment_intent_ref = NoAttr | IsNone | Intent string

record ledger_transaction =
  tx_id :: string
  tx_created :: int
  tx_amount :: int
  tx_currency :: string
  tx_fee :: int
  tx_net :: int
  tx_type :: string
  tx_payment_intent :: payment_intent_ref

record customer_details =
  cd_name :: "string option"
  cd_email :: "string option"

record line_item =
  description :: "string option"

record checkout_session =
  line_items :: "line_item list"
  customer_details :: "customer_details option"

text \<open>The dictionary \<^verbatim>\<open>{'product': ..., 'customer': ...}\<close> built per payment intent.\<close>

record intent_data =
  i_product :: "string option"
  i_customer :: "customer_details option"

text \<open>The dictionary built per transaction by \<^verbatim>\<open>simplify_report_data\<close>.\<close>

record simplified_transaction =
  s_id :: string
  s_created :: int
  s_amount :: int
  s_currency :: string
  s_fee :: int
  s_net :: int
  s_product :: "string option"
  s_name :: "string option"
  s_email :: "string option"


section \<open>Transaction fetcher\<close>

text \<open>
  \<^verbatim>\<open>stripe.BalanceTransaction.auto_paging_iter\<close> is the provider: it is a parameter giving,
  for a payout, the finite sequence of all its balance transactions in the provider's order.
\<close>

definition get_payout_transactions ::
  "(string \<Rightarrow> ledger_transaction list) \<Rightarrow> string \<Rightarrow> ledger_transaction list" where
  "get_payout_transactions auto_paging_iter balance_payout_id =
     (let transactions = auto_paging_iter balance_payout_id;
          transactions_data =
            [transaction. transaction \<leftarrow> transactions, tx_type transaction \<noteq> ''payout'']
      in transactions_data)"

text \<open>
  The comprehension reads \<^verbatim>\<open>transaction.source.payment_intent.id\<close> for every transaction whose
  source has the attribute; an attribute that is \<^verbatim>\<open>None\<close> has no \<^verbatim>\<open>id\<close>.
\<close>

fun get_payment_intents_ids :: "ledger_transaction list \<Rightarrow> error + string list" where
  "get_payment_intents_ids [] = Inr []"
| "get_payment_intents_ids (transaction # transactions_data) =
     (case tx_payment_intent transaction of
        NoAttr \<Rightarrow> get_payment_intents_ids transactions_data
      | IsNone \<Rightarrow> Inl AttributeError
      | Intent i \<Rightarrow>
          (case get_payment_intents_ids transactions_data of
             Inl e \<Rightarrow> Inl e
           | Inr ids \<Rightarrow> Inr (i # ids)))"


section \<open>Purchase resolver\<close>

text \<open>
  The loop \<^verbatim>\<open>for charge in charges: return ...\<close> returns at the first session; over an empty
  sequence the function would fall off its end and return \<^verbatim>\<open>None\<close>. Indexing
  \<^verbatim>\<open>line_items.data[0]\<close> on an empty list raises \<^verbatim>\<open>IndexError\<close>.
\<close>

fun first_charge ::
  "string \<Rightarrow> checkout_session list \<Rightarrow> error + (string \<times> intent_data) option" where
  "first_charge intent_id [] = Inr None"
| "first_charge intent_id (charge # _) =
     (case line_items charge of
        [] \<Rightarrow> Inl IndexError
      | item # _ \<Rightarrow>
          Inr (Some (intent_id,
            \<lparr>i_product = description item, i_customer = customer_details charge\<rparr>)))"

text \<open>
  \<^verbatim>\<open>stripe.checkout.Session.list\<close> is the parameter \<open>session_list\<close>: the sessions the
  provider returns for a payment intent.
\<close>

definition get_intent_data ::
  "(string \<Rightarrow> checkout_session list) \<Rightarrow> string \<Rightarrow> error + (string \<times> intent_data) option" where
  "get_intent_data session_list intent_id =
     (let charges = session_list intent_id in
      if length charges > 1 then Inl ValueError
      else if length charges = 0 then
        Inr (Some (intent_id,
          \<lparr>i_product = Some DIRECT_CHARGE,
           i_customer = Some \<lparr>cd_name = None, cd_email = None\<rparr>\<rparr>))
      else first_charge intent_id charges)"

text \<open>
  The loop over \<^verbatim>\<open>as_completed(futures)\<close>: \<^verbatim>\<open>future.result()\<close> re-raises the exception of
  a failed lookup, and unpacking \<^verbatim>\<open>None\<close> into a pair raises \<^verbatim>\<open>TypeError\<close>.
\<close>

fun collect_results ::
  "(error + (string \<times> intent_data) option) list \<Rightarrow> (string \<rightharpoonup> intent_data)
     \<Rightarrow> error + (string \<rightharpoonup> intent_data)" where
  "collect_results [] intent_type_charge_dict = Inr intent_type_charge_dict"
| "collect_results (future # futures) intent_type_charge_dict =
     (case future of
        Inl e \<Rightarrow> Inl e
      | Inr None \<Rightarrow> Inl TypeError
      | Inr (Some (intent_id, intent_data)) \<Rightarrow>
          collect_results futures (intent_type_charge_dict(intent_id \<mapsto> intent_data)))"

text \<open>
  Every identifier is submitted to the pool; the futures are then consumed in the order in
  which they complete. That order is not determined by the program: it is the parameter
  \<open>as_completed\<close>, of which the theorems assume only that it yields every future once.
\<close>

definition make_intent_charge_dict ::
  "(string \<Rightarrow> checkout_session list)
     \<Rightarrow> ((error + (string \<times> intent_data) option) list
          \<Rightarrow> (error + (string \<times> intent_data) option) list)
     \<Rightarrow> string list \<Rightarrow> error + (string \<rightharpoonup> intent_data)" where
  "make_intent_charge_dict session_list as_completed payment_intents_ids =
     (let futures = map (get_intent_data session_list) payment_intents_ids
      in collect_results (as_completed futures) Map.empty)"


section \<open>Report assembler\<close>

text \<open>
  One iteration of the loop of \<^verbatim>\<open>simplify_report_data\<close>. The first statement reads
  \<^verbatim>\<open>transaction.source.payment_intent.id\<close> without any guard. The default of \<^verbatim>\<open>dict.get\<close>
  is the unmatched metadata, and \<^verbatim>\<open>intent_data["customer"]["name"]\<close> subscripts the customer.
\<close>

definition simplify_transaction ::
  "ledger_transaction \<Rightarrow> (string \<rightharpoonup> intent_data) \<Rightarrow> error + simplified_transaction" where
  "simplify_transaction transaction intent_type_charge_dict =
     (case tx_payment_intent transaction of
        NoAttr \<Rightarrow> Inl AttributeError
      | IsNone \<Rightarrow> Inl AttributeError
      | Intent payment_intent \<Rightarrow>
          (let intent_data =
                 (case intent_type_charge_dict payment_intent of
                    Some d \<Rightarrow> d
                  | None \<Rightarrow>
                      \<lparr>i_product = None,
                       i_customer = Some \<lparr>cd_name = None, cd_email = None\<rparr>\<rparr>)
           in case i_customer intent_data of
                None \<Rightarrow> Inl TypeError
              | Some customer \<Rightarrow>
                  Inr \<lparr>s_id = tx_id transaction,
                       s_created = tx_created transaction,
                       s_amount = tx_amount transaction,
                       s_currency = tx_currency transaction,
                       s_fee = tx_fee transaction,
                       s_net = tx_net transaction,
                       s_product = i_product intent_data,
                       s_name = cd_name customer,
                       s_email = cd_email customer\<rparr>))"

fun simplify_loop ::
  "ledger_transaction list \<Rightarrow> (string \<rightharpoonup> intent_data) \<Rightarrow> simplified_transaction list
     \<Rightarrow> error + simplified_transaction list" where
  "simplify_loop [] intent_type_charge_dict simplified_data = Inr simplified_data"
| "simplify_loop (transaction # transactions_data) intent_type_charge_dict simplified_data =
     (case simplify_transaction transaction intent_type_charge_dict of
        Inl e \<Rightarrow> Inl e
      | Inr simplified_transaction \<Rightarrow>
          simplify_loop transactions_data intent_type_charge_dict
            (simplified_data @ [simplified_transaction]))"

definition simplify_report_data ::
  "ledger_transaction list \<Rightarrow> (string \<rightharpoonup> intent_data)
     \<Rightarrow> error + simplified_transaction list" where
  "simplify_report_data transactions_data intent_type_charge_dict =
     simplify_loop transactions_data intent_type_charge_dict []"


section \<open>Aggregator\<close>

text \<open>The dictionary kept per product by \<^verbatim>\<open>aggregate_report_transactions\<close>.\<close>

record aggregate_bucket =
  b_amount :: int
  b_fee :: int
  b_net :: int
  b_product :: "string option"

text \<open>
  \<^verbatim>\<open>aggregated_data\<close> is a Python dictionary, which keeps its keys in the order of their
  first insertion: it is an association list, and \<open>AList.update\<close> replaces the value of a
  key that is present where it stands and appends a key that is absent. The key is the
  product, which may be \<^verbatim>\<open>None\<close>. One iteration of the loop:
\<close>

definition aggregate_step ::
  "simplified_transaction \<Rightarrow> (string option \<times> aggregate_bucket) list
     \<Rightarrow> (string option \<times> aggregate_bucket) list" where
  "aggregate_step transaction aggregated_data =
     (let product = s_product transaction;
          amount = s_amount transaction;
          fee = s_fee transaction;
          net = s_net transaction
      in case map_of aggregated_data product of
           None \<Rightarrow>
             AList.update product
               \<lparr>b_amount = amount, b_fee = fee, b_net = net, b_product = product\<rparr>
               aggregated_data
         | Some bucket \<Rightarrow>
             AList.update product
               (bucket\<lparr>b_amount := b_amount bucket + amount,
                       b_fee := b_fee bucket + fee,
                       b_net := b_net bucket + net\<rparr>)
               aggregated_data)"

definition aggregate_report_transactions ::
  "simplified_transaction list \<Rightarrow> (string option \<times> aggregate_bucket) list" where
  "aggregate_report_transactions report_transactions =
     fold aggregate_step report_transactions []"

text \<open>The same iteration on the mapping that the association list represents.\<close>

definition add_to_bucket ::
  "simplified_transaction \<Rightarrow> aggregate_bucket option \<Rightarrow> aggregate_bucket" where
  "add_to_bucket t bucket =
     (case bucket of
        None \<Rightarrow>
          \<lparr>b_amount = s_amount t, b_fee = s_fee t, b_net = s_net t, b_product = s_product t\<rparr>
      | Some b \<Rightarrow>
          b\<lparr>b_amount := b_amount b + s_amount t,
            b_fee := b_fee b + s_fee t,
            b_net := b_net b + s_net t\<rparr>)"

definition map_step ::
  "simplified_transaction \<Rightarrow> (string option \<rightharpoonup> aggregate_bucket)
     \<Rightarrow> (string option \<rightharpoonup> aggregate_bucket)" where
  "map_step t m = m(s_product t \<mapsto> add_to_bucket t (m (s_product t)))"


section \<open>Report\<close>

text \<open>The dictionary \<^verbatim>\<open>report_data\<close> that \<^verbatim>\<open>get_report_data\<close> returns.\<close>

record report =
  r_balance_payout_id :: string
  r_transactions :: "simplified_transaction list"
  r_aggregation :: "(string option \<times> aggregate_bucket) list"

definition get_report_data ::
  "(string \<Rightarrow> ledger_transaction list) \<Rightarrow> (string \<Rightarrow> checkout_session list)
     \<Rightarrow> ((error + (string \<times> intent_data) option) list
          \<Rightarrow> (error + (string \<times> intent_data) option) list)
     \<Rightarrow> string \<Rightarrow> error + report" where
  "get_report_data auto_paging_iter session_list as_completed balance_payout_id =
     (let transactions_data = get_payout_transactions auto_paging_iter balance_payout_id in
      case get_payment_intents_ids transactions_data of
        Inl e \<Rightarrow> Inl e
      | Inr payment_intents_ids \<Rightarrow>
          (case make_intent_charge_dict session_list as_completed payment_intents_ids of
             Inl e \<Rightarrow> Inl e
           | Inr intent_type_charge_dict \<Rightarrow>
               (case simplify_report_data transactions_data intent_type_charge_dict of
                  Inl e \<Rightarrow> Inl e
                | Inr report_transactions \<Rightarrow>
                    (let aggregation = aggregate_report_transactions report_transactions
                     in Inr \<lparr>r_balance_payout_id = balance_payout_id,
                             r_transactions = report_transactions,
                             r_aggregation = aggregation\<rparr>))))"


section \<open>Structured dump\<close>

text \<open>
  The records above are Python dictionaries. The values they are made of: \<^verbatim>\<open>None\<close>,
  integers, strings, lists, and dictionaries in insertion order whose keys are strings or
  \<^verbatim>\<open>None\<close>. A JSON document is modelled by its structure, the members of an object in
  their order and with names that may repeat; writing the document as text and parsing that
  text are not modelled.
\<close>

datatype py = PNone | PInt int | PStr string | PList "py list" | PDict "(string option \<times> py) list"

datatype json = JNull | JNumber int | JString string | JArray "json list"
  | JObject "(string \<times> json) list"

text \<open>
  \<^verbatim>\<open>json.dumps\<close> writes the keys of a dictionary as strings: a string as it is, and the key
  \<^verbatim>\<open>None\<close> as \<^verbatim>\<open>null\<close>.
\<close>

definition json_key :: "string option \<Rightarrow> string" where
  "json_key k = (case k of None \<Rightarrow> ''null'' | Some s \<Rightarrow> s)"

fun json_dumps :: "py \<Rightarrow> json" where
  "json_dumps PNone = JNull"
| "json_dumps (PInt n) = JNumber n"
| "json_dumps (PStr s) = JString s"
| "json_dumps (PList xs) = JArray (map json_dumps xs)"
| "json_dumps (PDict kvs) = JObject (map (\<lambda>(k, v). (json_key k, json_dumps v)) kvs)"

text \<open>
  \<^verbatim>\<open>json.load\<close> builds a dictionary from the members of an object one after the other, so
  that of two members of the same name the later value is kept, at the place of the earlier.
\<close>

definition dict_of_pairs :: "('k \<times> 'v) list \<Rightarrow> ('k \<times> 'v) list" where
  "dict_of_pairs pairs = fold (\<lambda>(k, v). AList.update k v) pairs []"

fun json_load :: "json \<Rightarrow> py" where
  "json_load JNull = PNone"
| "json_load (JNumber n) = PInt n"
| "json_load (JString s) = PStr s"
| "json_load (JArray xs) = PList (map json_load xs)"
| "json_load (JObject members) =
     PDict (dict_of_pairs (map (\<lambda>(k, v). (Some k, json_load v)) members))"

text \<open>The Python values of the records of the report.\<close>

definition optional_str :: "string option \<Rightarrow> py" where
  "optional_str s = (case s of None \<Rightarrow> PNone | Some x \<Rightarrow> PStr x)"

definition simplified_transaction_py :: "simplified_transaction \<Rightarrow> py" where
  "simplified_transaction_py t =
     PDict [(Some ''id'', PStr (s_id t)),
            (Some ''created'', PInt (s_created t)),
            (Some ''amount'', PInt (s_amount t)),
            (Some ''currency'', PStr (s_currency t)),
            (Some ''fee'', PInt (s_fee t)),
            (Some ''net'', PInt (s_net t)),
            (Some ''product'', optional_str (s_product t)),
            (Some ''name'', optional_str (s_name t)),
            (Some ''email'', optional_str (s_email t))]"

definition aggregate_bucket_py :: "aggregate_bucket \<Rightarrow> py" where
  "aggregate_bucket_py b =
     PDict [(Some ''amount'', PInt (b_amount b)),
            (Some ''fee'', PInt (b_fee b)),
            (Some ''net'', PInt (b_net b)),
            (Some ''product'', optional_str (b_product b))]"

definition report_py :: "report \<Rightarrow> py" where
  "report_py report_data =
     PDict [(Some ''balance_payout_id'', PStr (r_balance_payout_id report_data)),
            (Some ''transactions'',
               PList (map simplified_transaction_py (r_transactions report_data))),
            (Some ''aggregation'',
               PDict (map (\<lambda>(product, bucket). (product, aggregate_bucket_py bucket))
                 (r_aggregation report_data)))]"

text \<open>Subscripting, \<^verbatim>\<open>data[key]\<close>.\<close>

fun py_getitem :: "py \<Rightarrow> string option \<Rightarrow> error + py" where
  "py_getitem (PDict items) key =
     (case map_of items key of None \<Rightarrow> Inl KeyError | Some v \<Rightarrow> Inr v)"
| "py_getitem _ key = Inl TypeError"

definition read_report_data_from_json :: "json \<Rightarrow> py" where
  "read_report_data_from_json file = (let report_data = json_load file in report_data)"

text \<open>The group keys of a report: the keys of \<^verbatim>\<open>report_data["aggregation"]\<close>.\<close>

definition group_keys :: "py \<Rightarrow> error + string option list" where
  "group_keys report_data =
     (case py_getitem report_data (Some ''aggregation'') of
        Inl e \<Rightarrow> Inl e
      | Inr (PDict items) \<Rightarrow> Inr (map fst items)
      | Inr _ \<Rightarrow> Inl TypeError)"


section \<open>Tabular export\<close>

text \<open>
  The value that the program assigns to a worksheet cell: a Python value of the report as it
  is, or a float. The true division \<^verbatim>\<open>/\<close> of two integers returns the float nearest to
  the quotient, and \<open>Float x\<close> stands for the float nearest to the real number \<open>x\<close>.
\<close>

datatype cell_value = Value py | Float real

text \<open>
  The quotients that round beyond the largest finite float, \<open>2 ^ 1024 - 2 ^ 971\<close>: for
  these the true division raises \<^verbatim>\<open>OverflowError\<close>.
\<close>

definition float_overflow :: "real \<Rightarrow> bool" where
  "float_overflow x \<longleftrightarrow> 2 ^ 1024 - 2 ^ 970 \<le> \<bar>x\<bar>"

text \<open>\<^verbatim>\<open>data[key] / 100\<close>: true division is defined on numbers only.\<close>

definition truediv :: "py \<Rightarrow> int \<Rightarrow> error + cell_value" where
  "truediv v n =
     (case v of
        PInt a \<Rightarrow>
          if n = 0 then Inl ZeroDivisionError
          else if float_overflow (real_of_int a / real_of_int n) then Inl OverflowError
          else Inr (Float (real_of_int a / real_of_int n))
      | _ \<Rightarrow> Inl TypeError)"

text \<open>
  The date and time that \<^verbatim>\<open>datetime.utcfromtimestamp\<close> returns. The function itself belongs
  to the Python standard library: it is a parameter of the functions below, and returns the
  date and time or raises.
\<close>

record datetime =
  dt_year :: nat
  dt_month :: nat
  dt_day :: nat
  dt_hour :: nat
  dt_minute :: nat
  dt_second :: nat

text \<open>
  \<^verbatim>\<open>strftime\<close>, for the six directives that the program uses, as the C library of Linux
  formats them: \<^verbatim>\<open>%Y\<close> is the year in decimal digits, without padding, and each of the
  others is a decimal number padded with zeros to two digits. Other characters are copied.
\<close>

definition digit_char :: "nat \<Rightarrow> char" where
  "digit_char d = ''0123456789'' ! (d mod 10)"

fun decimal :: "nat \<Rightarrow> string" where
  "decimal n = (if n < 10 then [digit_char n] else decimal (n div 10) @ [digit_char (n mod 10)])"

declare decimal.simps [simp del]

definition zfill :: "nat \<Rightarrow> string \<Rightarrow> string" where
  "zfill width s = replicate (width - length s) CHR ''0'' @ s"

definition directive :: "datetime \<Rightarrow> char \<Rightarrow> string" where
  "directive dt c =
     (if c = CHR ''Y'' then decimal (dt_year dt)
      else if c = CHR ''m'' then zfill 2 (decimal (dt_month dt))
      else if c = CHR ''d'' then zfill 2 (decimal (dt_day dt))
      else if c = CHR ''H'' then zfill 2 (decimal (dt_hour dt))
      else if c = CHR ''M'' then zfill 2 (decimal (dt_minute dt))
      else if c = CHR ''S'' then zfill 2 (decimal (dt_second dt))
      else [CHR ''%'', c])"

fun strftime :: "datetime \<Rightarrow> string \<Rightarrow> string" where
  "strftime dt (c # d # format) =
     (if c = CHR ''%'' then directive dt d @ strftime dt format
      else c # strftime dt (d # format))"
| "strftime dt format = format"

definition format_for_worksheet ::
  "(int \<Rightarrow> error + datetime) \<Rightarrow> py \<Rightarrow> string \<Rightarrow> error + cell_value" where
  "format_for_worksheet utcfromtimestamp data key =
     (case py_getitem data (Some key) of
        Inl e \<Rightarrow> Inl e
      | Inr formatted \<Rightarrow>
          if key \<in> set [''amount'', ''fee'', ''net''] then truediv formatted 100
          else if key = ''created'' then
            (case formatted of
               PInt timestamp \<Rightarrow>
                 (case utcfromtimestamp timestamp of
                    Inl e \<Rightarrow> Inl e
                  | Inr dt \<Rightarrow> Inr (Value (PStr (strftime dt ''%Y-%m-%d %H:%M:%S''))))
             | _ \<Rightarrow> Inl TypeError)
          else Inr (Value formatted))"

text \<open>
  The worksheet maps a row and a column, both counted from 1, to the value that the program
  assigns to the cell, for the cells it assigns; what the spreadsheet library does with the
  values is outside the model. The four loops of \<^verbatim>\<open>save_to_worksheet\<close> over
  \<^verbatim>\<open>enumerate\<close>, with the running index as an argument: the header cells of a row, the
  cells of a data row, the rows of the aggregation (the loop iterates over the keys of the
  dictionary and subscripts the dictionary with each key) and the rows of the transactions.
\<close>

type_synonym worksheet = "nat \<times> nat \<Rightarrow> cell_value option"

fun write_headers :: "worksheet \<Rightarrow> nat \<Rightarrow> nat \<Rightarrow> string list \<Rightarrow> worksheet" where
  "write_headers worksheet row idx [] = worksheet"
| "write_headers worksheet row idx (header # headers) =
     write_headers (worksheet((row, idx + 1) \<mapsto> Value (PStr header))) row (Suc idx) headers"

fun write_row ::
  "(int \<Rightarrow> error + datetime) \<Rightarrow> worksheet \<Rightarrow> nat \<Rightarrow> nat \<Rightarrow> py \<Rightarrow> string list
     \<Rightarrow> error + worksheet" where
  "write_row utcfromtimestamp worksheet row col_idx data [] = Inr worksheet"
| "write_row utcfromtimestamp worksheet row col_idx data (key # keys) =
     (case format_for_worksheet utcfromtimestamp data key of
        Inl e \<Rightarrow> Inl e
      | Inr v \<Rightarrow>
          write_row utcfromtimestamp (worksheet((row, col_idx + 1) \<mapsto> v)) row (Suc col_idx)
            data keys)"

fun write_aggregation_rows ::
  "(int \<Rightarrow> error + datetime) \<Rightarrow> worksheet \<Rightarrow> nat \<Rightarrow> string option list
     \<Rightarrow> (string option \<times> aggregate_bucket) list \<Rightarrow> string list \<Rightarrow> error + worksheet" where
  "write_aggregation_rows utcfromtimestamp worksheet row_idx [] aggregation
     aggregation_headers = Inr worksheet"
| "write_aggregation_rows utcfromtimestamp worksheet row_idx (data # keys) aggregation
     aggregation_headers =
     (case map_of aggregation data of
        None \<Rightarrow> Inl KeyError
      | Some bucket \<Rightarrow>
          (case write_row utcfromtimestamp worksheet (row_idx + 2) 0
                  (aggregate_bucket_py bucket) aggregation_headers of
             Inl e \<Rightarrow> Inl e
           | Inr worksheet' \<Rightarrow>
               write_aggregation_rows utcfromtimestamp worksheet' (Suc row_idx) keys
                 aggregation aggregation_headers))"

fun write_transaction_rows ::
  "(int \<Rightarrow> error + datetime) \<Rightarrow> worksheet \<Rightarrow> nat \<Rightarrow> nat \<Rightarrow> simplified_transaction list
     \<Rightarrow> string list \<Rightarrow> error + worksheet" where
  "write_transaction_rows utcfromtimestamp worksheet aggregation_len row_idx [] headers =
     Inr worksheet"
| "write_transaction_rows utcfromtimestamp worksheet aggregation_len row_idx
     (data # transactions) headers =
     (case write_row utcfromtimestamp worksheet (row_idx + 2 + aggregation_len) 0
             (simplified_transaction_py data) headers of
        Inl e \<Rightarrow> Inl e
      | Inr worksheet' \<Rightarrow>
          write_transaction_rows utcfromtimestamp worksheet' aggregation_len (Suc row_idx)
            transactions headers)"

text \<open>
  \<^verbatim>\<open>save_to_worksheet\<close> returns the cells of the worksheet that \<^verbatim>\<open>workbook.save\<close> is
  given.
\<close>

definition save_to_worksheet ::
  "(int \<Rightarrow> error + datetime) \<Rightarrow> report \<Rightarrow> error + worksheet" where
  "save_to_worksheet utcfromtimestamp report_data =
     (let headers = [''id'', ''created'', ''amount'', ''currency'', ''fee'', ''net'',
                     ''product'', ''name'', ''email''];
          numeric = [''amount'', ''fee'', ''net''];
          aggregation_headers = [''product''] @ numeric;
          aggregation_len = length (r_aggregation report_data) + 2;
          worksheet = write_headers Map.empty 1 0 aggregation_headers
      in case write_aggregation_rows utcfromtimestamp worksheet 0
                (map fst (r_aggregation report_data)) (r_aggregation report_data)
                aggregation_headers of
           Inl e \<Rightarrow> Inl e
         | Inr worksheet \<Rightarrow>
             (let worksheet = write_headers worksheet (aggregation_len + 1) 0 headers
              in write_transaction_rows utcfromtimestamp worksheet aggregation_len 0
                   (r_transactions report_data) headers))"


section \<open>The table that the specification describes\<close>

text \<open>The first cells of a row of the worksheet, from column 1.\<close>

definition worksheet_row :: "worksheet \<Rightarrow> nat \<Rightarrow> nat \<Rightarrow> cell_value option list" where
  "worksheet_row worksheet row width = map (\<lambda>c. worksheet (row, Suc c)) [0..<width]"

text \<open>
  The date and time in UTC of a timestamp, as the documentation of \<^verbatim>\<open>datetime\<close> defines
  it: a date of the proleptic Gregorian calendar and a time of day such that the seconds
  from 1970-01-01 00:00:00 to it, with days of 86400 seconds, are the timestamp. The day
  numbered 719163 from 0001-01-01 is 1970-01-01.
\<close>

definition is_leap :: "nat \<Rightarrow> bool" where
  "is_leap year \<longleftrightarrow> year mod 4 = 0 \<and> (year mod 100 \<noteq> 0 \<or> year mod 400 = 0)"

definition days_in_month :: "nat \<Rightarrow> nat \<Rightarrow> nat" where
  "days_in_month year month =
     (if month = 2 then (if is_leap year then 29 else 28)
      else if month = 4 \<or> month = 6 \<or> month = 9 \<or> month = 11 then 30 else 31)"

definition days_before_month :: "nat \<Rightarrow> nat \<Rightarrow> nat" where
  "days_before_month year month =
     sum_list (take (month - 1)
       (map (days_in_month year) [1, 2, 3, 4, 5, 6, 7, 8, 9, 10, 11, 12]))"

definition days_before_year :: "nat \<Rightarrow> int" where
  "days_before_year year =
     (let y = int year - 1 in y * 365 + y div 4 - y div 100 + y div 400)"

definition ordinal :: "datetime \<Rightarrow> int" where
  "ordinal dt =
     days_before_year (dt_year dt) + int (days_before_month (dt_year dt) (dt_month dt))
       + int (dt_day dt)"

definition epoch_seconds :: "datetime \<Rightarrow> int" where
  "epoch_seconds dt =
     (ordinal dt - 719163) * 86400
       + int (dt_hour dt * 3600 + dt_minute dt * 60 + dt_second dt)"

definition valid_datetime :: "datetime \<Rightarrow> bool" where
  "valid_datetime dt \<longleftrightarrow>
     1 \<le> dt_year dt \<and> dt_year dt \<le> 9999 \<and> 1 \<le> dt_month dt \<and> dt_month dt \<le> 12
     \<and> 1 \<le> dt_day dt \<and> dt_day dt \<le> days_in_month (dt_year dt) (dt_month dt)
     \<and> dt_hour dt < 24 \<and> dt_minute dt < 60 \<and> dt_second dt < 60"

definition utc_datetime :: "datetime \<Rightarrow> int \<Rightarrow> bool" where
  "utc_datetime dt timestamp \<longleftrightarrow> valid_datetime dt \<and> epoch_seconds dt = timestamp"

text \<open>The string \<^verbatim>\<open>YYYY-MM-DD HH:MM:SS\<close> of a date and time: four digits, then two each.\<close>

definition two_digits :: "nat \<Rightarrow> string" where
  "two_digits n = [digit_char (n div 10), digit_char (n mod 10)]"

definition four_digits :: "nat \<Rightarrow> string" where
  "four_digits n =
     [digit_char (n div 1000), digit_char (n div 100 mod 10), digit_char (n div 10 mod 10),
      digit_char (n mod 10)]"

definition spec_utc_string :: "datetime \<Rightarrow> string" where
  "spec_utc_string dt =
     four_digits (dt_year dt) @ ''-'' @ two_digits (dt_month dt) @ ''-'' @
     two_digits (dt_day dt) @ '' '' @ two_digits (dt_hour dt) @ '':'' @
     two_digits (dt_minute dt) @ '':'' @ two_digits (dt_second dt)"

text \<open>The integers whose hundredth is within the range of a float.\<close>

definition fits_float :: "int \<Rightarrow> bool" where
  "fits_float a \<longleftrightarrow> \<not> float_overflow (real_of_int a / 100)"

text \<open>
  The rows as the specification describes them: the monetary fields divided by 100, the
  creation timestamp as \<^verbatim>\<open>YYYY-MM-DD HH:MM:SS\<close>, the other fields as they are.
\<close>

definition spec_aggregation_row :: "aggregate_bucket \<Rightarrow> cell_value list" where
  "spec_aggregation_row bucket =
     [Value (optional_str (b_product bucket)),
      Float (real_of_int (b_amount bucket) / 100),
      Float (real_of_int (b_fee bucket) / 100),
      Float (real_of_int (b_net bucket) / 100)]"

definition spec_detail_row :: "simplified_transaction \<Rightarrow> datetime \<Rightarrow> cell_value list" where
  "spec_detail_row t dt =
     [Value (PStr (s_id t)),
      Value (PStr (spec_utc_string dt)),
      Float (real_of_int (s_amount t) / 100),
      Value (PStr (s_currency t)),
      Float (real_of_int (s_fee t) / 100),
      Float (real_of_int (s_net t) / 100),
      Value (optional_str (s_product t)),
      Value (optional_str (s_name t)),
      Value (optional_str (s_email t))]"

text \<open>A worksheet with a block of rows written from a given row on, from column 1.\<close>

definition put_rows :: "worksheet \<Rightarrow> nat \<Rightarrow> cell_value list list \<Rightarrow> worksheet" where
  "put_rows worksheet start rows =
     (\<lambda>(r, c).
        if start \<le> r \<and> r < start + length rows \<and> 1 \<le> c \<and> c \<le> length (rows ! (r - start))
        then Some (rows ! (r - start) ! (c - 1))
        else worksheet (r, c))"


section \<open>Entry point\<close>

text \<open>
  Attribute lookup on a Python \<^verbatim>\<open>str\<close>, for the one method this program needs:
  \<^verbatim>\<open>startswith\<close> is the prefix test, and a name that \<^verbatim>\<open>str\<close> does not have raises
  \<^verbatim>\<open>AttributeError\<close>.
\<close>

definition str_getattr :: "string \<Rightarrow> string \<Rightarrow> error + (string \<Rightarrow> bool)" where
  "str_getattr s attribute =
     (if attribute = ''startswith'' then Inr (\<lambda>p. prefix p s) else Inl AttributeError)"

text \<open>
  \<^verbatim>\<open>main\<close> checks the API key and then runs the rest of the program (argument parsing and
  the report, with all its remote calls), which is the parameter \<open>run\<close>.
\<close>

definition main :: "string \<Rightarrow> (error + 'a) \<Rightarrow> error + 'a" where
  "main api_key run =
     (case str_getattr api_key ''startsWith'' of
        Inl e \<Rightarrow> Inl e
      | Inr startsWith \<Rightarrow>
          if \<not> startsWith ''rk_'' then Inl ValueError else run)"


section \<open>Example data\<close>

text \<open>Two balance transactions of a payout, one of them the payout to the bank itself.\<close>

definition example_charge_entry :: ledger_transaction where
  "example_charge_entry =
     \<lparr>tx_id = ''txn_1'', tx_created = 1700000000, tx_amount = 1000, tx_currency = ''eur'',
      tx_fee = 30, tx_net = 970, tx_type = ''charge'', tx_payment_intent = Intent ''pi_1''\<rparr>"

definition example_payout_entry :: ledger_transaction where
  "example_payout_entry =
     \<lparr>tx_id = ''txn_2'', tx_created = 1700086400, tx_amount = - 970, tx_currency = ''eur'',
      tx_fee = 0, tx_net = - 970, tx_type = ''payout'', tx_payment_intent = NoAttr\<rparr>"

text \<open>A checkout session with two line items.\<close>

definition example_session :: checkout_session where
  "example_session =
     \<lparr>line_items = [\<lparr>description = Some ''Coffee''\<rparr>, \<lparr>description = Some ''Tea''\<rparr>],
      customer_details = Some \<lparr>cd_name = Some ''A'', cd_email = Some ''a@x.com''\<rparr>\<rparr>"

text \<open>
  The concrete scenario of the specification: the two transactions, the second with the
  payment intent as a parameter, the resolver result, the two enriched transactions and the
  report.
\<close>

definition scenario_t1 :: ledger_transaction where
  "scenario_t1 =
     \<lparr>tx_id = ''t1'', tx_created = 1700000000, tx_amount = 1000, tx_currency = ''eur'',
      tx_fee = 30, tx_net = 970, tx_type = ''charge'', tx_payment_intent = Intent ''i1''\<rparr>"

definition scenario_t2 :: "payment_intent_ref \<Rightarrow> ledger_transaction" where
  "scenario_t2 intent =
     \<lparr>tx_id = ''t2'', tx_created = 1700000060, tx_amount = 500, tx_currency = ''eur'',
      tx_fee = 15, tx_net = 485, tx_type = ''charge'', tx_payment_intent = intent\<rparr>"

definition scenario_intents :: "string \<rightharpoonup> intent_data" where
  "scenario_intents =
     [''i1'' \<mapsto> \<lparr>i_product = Some ''Coffee'',
                 i_customer = Some \<lparr>cd_name = Some ''A'', cd_email = Some ''a@x.com''\<rparr>\<rparr>]"

definition scenario_s1 :: simplified_transaction where
  "scenario_s1 =
     \<lparr>s_id = ''t1'', s_created = 1700000000, s_amount = 1000, s_currency = ''eur'',
      s_fee = 30, s_net = 970, s_product = Some ''Coffee'', s_name = Some ''A'',
      s_email = Some ''a@x.com''\<rparr>"

definition scenario_s2 :: simplified_transaction where
  "scenario_s2 =
     \<lparr>s_id = ''t2'', s_created = 1700000060, s_amount = 500, s_currency = ''eur'',
      s_fee = 15, s_net = 485, s_product = None, s_name = None, s_email = None\<rparr>"

definition scenario_report :: report where
  "scenario_report =
     \<lparr>r_balance_payout_id = ''po_1'',
      r_transactions = [scenario_s1, scenario_s2],
      r_aggregation = aggregate_report_transactions [scenario_s1, scenario_s2]\<rparr>"


text \<open>
  An instance of \<^verbatim>\<open>utcfromtimestamp\<close> for the examples: the civil date of a day number by
  the usual era computation, and \<^verbatim>\<open>ValueError\<close> for a year outside 1 to 9999.
\<close>

definition civil_from_timestamp :: "int \<Rightarrow> int \<times> datetime" where
  "civil_from_timestamp timestamp =
     (let days = timestamp div 86400;
          secs = timestamp mod 86400;
          z = days + 719468;
          era = z div 146097;
          doe = z mod 146097;
          yoe = (doe - doe div 1460 + doe div 36524 - doe div 146096) div 365;
          doy = doe - (365 * yoe + yoe div 4 - yoe div 100);
          mp = (5 * doy + 2) div 153;
          d = doy - (153 * mp + 2) div 5 + 1;
          m = (if mp < 10 then mp + 3 else mp - 9);
          y = yoe + era * 400 + (if m \<le> 2 then 1 else 0)
      in (y, \<lparr>dt_year = nat y, dt_month = nat m, dt_day = nat d,
              dt_hour = nat (secs div 3600), dt_minute = nat (secs mod 3600 div 60),
              dt_second = nat (secs mod 60)\<rparr>))"

definition example_utcfromtimestamp :: "int \<Rightarrow> error + datetime" where
  "example_utcfromtimestamp timestamp =
     (case civil_from_timestamp timestamp of
        (y, dt) \<Rightarrow> if y < 1 \<or> 9999 < y then Inl ValueError else Inr dt)"

text \<open>
  The report of the scenario with an amount of \<open>10 ^ 400\<close>, and with a creation timestamp
  in the year 999.
\<close>

definition overflow_report :: report where
  "overflow_report =
     \<lparr>r_balance_payout_id = ''po_1'',
      r_transactions = [scenario_s1\<lparr>s_amount := 10 ^ 400\<rparr>],
      r_aggregation = aggregate_report_transactions [scenario_s1\<lparr>s_amount := 10 ^ 400\<rparr>]\<rparr>"

definition early_report :: report where
  "early_report =
     \<lparr>r_balance_payout_id = ''po_1'',
      r_transactions = [scenario_s1\<lparr>s_created := - 30610224001\<rparr>],
      r_aggregation = aggregate_report_transactions [scenario_s1\<lparr>s_created := - 30610224001\<rparr>]\<rparr>"


section \<open>Properties of the transaction fetcher\<close>

lemma get_payout_transactions_filter:
  "get_payout_transactions auto_paging_iter balance_payout_id =
     filter (\<lambda>transaction. tx_type transaction \<noteq> ''payout'') (auto_paging_iter balance_payout_id)"
proof -
  have "concat (map (\<lambda>t. if tx_type t \<noteq> ''payout'' then [t] else []) xs) =
          filter (\<lambda>t. tx_type t \<noteq> ''payout'') xs" for xs :: "ledger_transaction list"
    by (induction xs) simp_all
  then show ?thesis
    by (simp add: get_payout_transactions_def)
qed

text \<open>
  Claim C5. For every payout, no entry of type \<^verbatim>\<open>"payout"\<close> is in the list returned by
  \<^verbatim>\<open>get_payout_transactions\<close>; the returned list is a subsequence of the provider's list, so
  the provider's order is kept; and every entry of another type is kept, as often as the
  provider returned it.
\<close>

theorem payout_entries_filtered:
  "(\<forall>t \<in> set (get_payout_transactions auto_paging_iter balance_payout_id).
       tx_type t \<noteq> ''payout'')
   \<and> subseq (get_payout_transactions auto_paging_iter balance_payout_id)
        (auto_paging_iter balance_payout_id)
   \<and> (\<forall>t. tx_type t \<noteq> ''payout'' \<longrightarrow>
        count_list (get_payout_transactions auto_paging_iter balance_payout_id) t =
        count_list (auto_paging_iter balance_payout_id) t)"
proof -
  have "count_list (filter P xs) t = count_list xs t" if "P t"
    for P and xs :: "ledger_transaction list" and t
    using that by (induction xs) auto
  then show ?thesis
    by (simp add: get_payout_transactions_filter)
qed


theorem payout_entries_filtered_witness:
  "get_payout_transactions (\<lambda>_. [example_payout_entry, example_charge_entry]) ''po_1'' =
     [example_charge_entry]
   \<and> example_payout_entry \<notin> set (get_payout_transactions
         (\<lambda>_. [example_payout_entry, example_charge_entry]) ''po_1'')
   \<and> count_list (get_payout_transactions
         (\<lambda>_. [example_payout_entry, example_charge_entry]) ''po_1'') example_charge_entry = 1"
  using payout_entries_filtered
    [of "\<lambda>_. [example_payout_entry, example_charge_entry]" "''po_1''"]
  by (simp add: get_payout_transactions_filter example_payout_entry_def
      example_charge_entry_def)


section \<open>Properties of the purchase resolver\<close>

text \<open>
  Claim C6. When the checkout-session query returns no session, \<^verbatim>\<open>get_intent_data\<close> returns
  the direct-charge label as product and a customer whose name and email are both null. When
  it returns exactly one session, with a first line item, the product is that line item's
  description and the customer is the session's customer-details record.
\<close>

theorem get_intent_data_resolution:
  "(session_list intent_id = [] \<longrightarrow>
      get_intent_data session_list intent_id =
        Inr (Some (intent_id,
          \<lparr>i_product = Some DIRECT_CHARGE,
           i_customer = Some \<lparr>cd_name = None, cd_email = None\<rparr>\<rparr>)))
   \<and> (session_list intent_id = [charge] \<and> line_items charge = item # items \<longrightarrow>
        get_intent_data session_list intent_id =
          Inr (Some (intent_id,
            \<lparr>i_product = description item, i_customer = customer_details charge\<rparr>)))"
  by (simp add: get_intent_data_def)

theorem get_intent_data_resolution_witness:
  "get_intent_data (\<lambda>_. []) ''pi_1'' =
     Inr (Some (''pi_1'',
       \<lparr>i_product = Some ''SudoSOS Topup'',
        i_customer = Some \<lparr>cd_name = None, cd_email = None\<rparr>\<rparr>))
   \<and> get_intent_data (\<lambda>_. [example_session]) ''pi_1'' =
     Inr (Some (''pi_1'',
       \<lparr>i_product = Some ''Coffee'',
        i_customer = Some \<lparr>cd_name = Some ''A'', cd_email = Some ''a@x.com''\<rparr>\<rparr>))"
  using get_intent_data_resolution [of "\<lambda>_. []" "''pi_1''"]
    get_intent_data_resolution [of "\<lambda>_. [example_session]" "''pi_1''" example_session
      "\<lparr>description = Some ''Coffee''\<rparr>" "[\<lparr>description = Some ''Tea''\<rparr>]"]
  by (simp add: example_session_def DIRECT_CHARGE_def)

text \<open>
  Claim C10. When the checkout-session query returns exactly one session and that session
  has no line item, \<^verbatim>\<open>get_intent_data\<close> raises \<^verbatim>\<open>IndexError\<close> instead of returning metadata.
\<close>

theorem get_intent_data_no_line_item:
  "session_list intent_id = [charge] \<Longrightarrow> line_items charge = [] \<Longrightarrow>
     get_intent_data session_list intent_id = Inl IndexError"
  by (simp add: get_intent_data_def)

theorem get_intent_data_no_line_item_witness:
  "get_intent_data (\<lambda>_. [\<lparr>line_items = [], customer_details = None\<rparr>]) ''pi_1'' =
     Inl IndexError"
  using get_intent_data_no_line_item
    [of "\<lambda>_. [\<lparr>line_items = [], customer_details = None\<rparr>]" "''pi_1''"
      "\<lparr>line_items = [], customer_details = None\<rparr>"]
  by simp

lemma collect_results_failed_future:
  "Inl e \<in> set futures \<Longrightarrow> \<exists>e'. collect_results futures d = Inl e'"
proof (induction futures arbitrary: d)
  case Nil
  then show ?case by simp
next
  case (Cons future futures)
  show ?case
  proof (cases future)
    case (Inl e')
    then show ?thesis by simp
  next
    case (Inr result)
    with Cons.prems have "Inl e \<in> set futures" by auto
    then have "\<exists>e'. collect_results futures d' = Inl e'" for d'
      by (rule Cons.IH)
    with Inr show ?thesis
      by (cases result) (auto split: prod.splits)
  qed
qed

text \<open>
  Claim C3. When the checkout-session query of a payment intent returns more than one
  session, \<^verbatim>\<open>get_intent_data\<close> raises \<^verbatim>\<open>ValueError\<close> for it, so no entry is produced for the
  identifier; and whenever such an identifier is among those submitted,
  \<^verbatim>\<open>make_intent_charge_dict\<close> raises, whatever the order in which the lookups complete: it
  returns no mapping, partial or not.
\<close>

theorem more_than_one_session_fails:
  assumes "length (session_list intent_id) > 1"
    and "intent_id \<in> set payment_intents_ids"
    and "\<forall>futures. mset (as_completed futures) = mset futures"
  shows "get_intent_data session_list intent_id = Inl ValueError
         \<and> (\<exists>e. make_intent_charge_dict session_list as_completed payment_intents_ids = Inl e)"
proof -
  have failed: "get_intent_data session_list intent_id = Inl ValueError"
    using assms(1) by (simp add: get_intent_data_def)
  let ?futures = "map (get_intent_data session_list) payment_intents_ids"
  have "Inl ValueError \<in> set ?futures"
    using assms(2) failed by force
  moreover have "set (as_completed ?futures) = set ?futures"
    using assms(3) by (metis set_mset_mset)
  ultimately have "Inl ValueError \<in> set (as_completed ?futures)"
    by simp
  then have "\<exists>e. collect_results (as_completed ?futures) Map.empty = Inl e"
    by (rule collect_results_failed_future)
  then show ?thesis
    using failed by (simp add: make_intent_charge_dict_def)
qed

theorem more_than_one_session_fails_witness:
  "get_intent_data (\<lambda>i. if i = ''pi_2'' then [example_session, example_session] else [])
     ''pi_2'' = Inl ValueError
   \<and> (\<exists>e. make_intent_charge_dict
            (\<lambda>i. if i = ''pi_2'' then [example_session, example_session] else [])
            rev [''pi_1'', ''pi_2'', ''pi_3''] = Inl e)"
  using more_than_one_session_fails
    [of "\<lambda>i. if i = ''pi_2'' then [example_session, example_session] else []"
      "''pi_2''" "[''pi_1'', ''pi_2'', ''pi_3'']" rev]
  by simp


section \<open>Properties of the report assembler\<close>

lemma simplify_loop_length:
  "simplify_loop transactions_data d acc = Inr out \<Longrightarrow>
     length out = length acc + length transactions_data"
  by (induction transactions_data arbitrary: acc) (auto split: sum.splits)

lemma simplify_loop_all:
  "list_all2 (\<lambda>t s. simplify_transaction t d = Inr s) transactions_data out \<Longrightarrow>
     simplify_loop transactions_data d acc = Inr (acc @ out)"
  by (induction transactions_data out arbitrary: acc rule: list_all2_induct) simp_all

text \<open>
  Where every transaction can be simplified, the result has one record per transaction, in
  the order of the transactions.
\<close>

lemma simplify_report_data_referenced:
  assumes "list_all2 (\<lambda>t s. simplify_transaction t d = Inr s) transactions_data out"
  shows "simplify_report_data transactions_data d = Inr out
         \<and> length out = length transactions_data"
  using assms simplify_loop_all [OF assms, of "[]"]
  by (simp add: simplify_report_data_def list_all2_lengthD)

text \<open>A transaction whose intent is not in the mapping gets the unmatched metadata.\<close>

lemma simplify_transaction_unmatched:
  "tx_payment_intent t = Intent i \<Longrightarrow> d i = None \<Longrightarrow>
     simplify_transaction t d =
       Inr \<lparr>s_id = tx_id t, s_created = tx_created t, s_amount = tx_amount t,
            s_currency = tx_currency t, s_fee = tx_fee t, s_net = tx_net t,
            s_product = None, s_name = None, s_email = None\<rparr>"
  by (simp add: simplify_transaction_def)

text \<open>A transaction that references no intent makes the whole loop fail.\<close>

lemma simplify_loop_unreferenced:
  "t \<in> set transactions_data \<Longrightarrow> tx_payment_intent t \<in> {NoAttr, IsNone} \<Longrightarrow>
     \<exists>e. simplify_loop transactions_data d acc = Inl e"
proof (induction transactions_data arbitrary: acc)
  case Nil
  then show ?case by simp
next
  case (Cons transaction transactions_data)
  show ?case
  proof (cases "simplify_transaction transaction d")
    case (Inl e)
    then show ?thesis by simp
  next
    case (Inr s)
    then have "tx_payment_intent transaction \<notin> {NoAttr, IsNone}"
      by (auto simp: simplify_transaction_def)
    with Cons.prems have "t \<in> set transactions_data" by auto
    then show ?thesis
      using Cons.IH Cons.prems(2) Inr by simp
  qed
qed

lemma simplify_report_data_unmatched_scenario:
  "simplify_report_data [scenario_t1, scenario_t2 (Intent ''i2'')] scenario_intents =
     Inr [scenario_s1, scenario_s2]"
  by (simp add: simplify_report_data_def simplify_transaction_def scenario_t1_def
      scenario_t2_def scenario_intents_def scenario_s1_def scenario_s2_def)

text \<open>
  Claim C1. The claim is that a transaction that references no payment intent passes
  through \<^verbatim>\<open>simplify_report_data\<close> with the unmatched metadata. On the scenario of the
  specification, whose second transaction has no intent, \<^verbatim>\<open>simplify_report_data\<close> raises
  \<^verbatim>\<open>AttributeError\<close> and returns no sequence at all, whether the source lacks the attribute or
  the attribute is null, and so does \<^verbatim>\<open>get_report_data\<close> for a payout with these
  transactions; \<^verbatim>\<open>get_payment_intents_ids\<close> guards the same access with \<^verbatim>\<open>hasattr\<close> and
  skips the transaction.
\<close>

theorem simplify_report_data_without_intent:
  "simplify_report_data [scenario_t1, scenario_t2 NoAttr] scenario_intents = Inl AttributeError
   \<and> simplify_report_data [scenario_t1, scenario_t2 IsNone] scenario_intents = Inl AttributeError
   \<and> get_payment_intents_ids [scenario_t1, scenario_t2 NoAttr] = Inr [''i1'']
   \<and> get_report_data (\<lambda>_. [scenario_t1, scenario_t2 NoAttr]) (\<lambda>_. [example_session]) id
         ''po_1'' = Inl AttributeError"
  by (simp add: simplify_report_data_def simplify_transaction_def scenario_t1_def
      scenario_t2_def scenario_intents_def get_report_data_def get_payout_transactions_filter
      make_intent_charge_dict_def get_intent_data_def example_session_def)


section \<open>Properties of the aggregator\<close>

lemma sum_list_update:
  fixes f :: "'v \<Rightarrow> int"
  shows "sum_list (map (f \<circ> snd) (AList.update k v al)) =
           sum_list (map (f \<circ> snd) al) + f v
             - (case map_of al k of None \<Rightarrow> 0 | Some b \<Rightarrow> f b)"
  by (induction al) auto

lemma sum_list_aggregate_step:
  "sum_list (map (b_amount \<circ> snd) (aggregate_step t d)) =
     sum_list (map (b_amount \<circ> snd) d) + s_amount t"
  "sum_list (map (b_fee \<circ> snd) (aggregate_step t d)) =
     sum_list (map (b_fee \<circ> snd) d) + s_fee t"
  "sum_list (map (b_net \<circ> snd) (aggregate_step t d)) =
     sum_list (map (b_net \<circ> snd) d) + s_net t"
  by (simp_all add: aggregate_step_def Let_def sum_list_update split: option.splits)

lemma sum_list_fold_aggregate_step:
  "sum_list (map (b_amount \<circ> snd) (fold aggregate_step ts d)) =
     sum_list (map (b_amount \<circ> snd) d) + sum_list (map s_amount ts)"
  "sum_list (map (b_fee \<circ> snd) (fold aggregate_step ts d)) =
     sum_list (map (b_fee \<circ> snd) d) + sum_list (map s_fee ts)"
  "sum_list (map (b_net \<circ> snd) (fold aggregate_step ts d)) =
     sum_list (map (b_net \<circ> snd) d) + sum_list (map s_net ts)"
  by (induction ts arbitrary: d) (simp_all add: sum_list_aggregate_step)

text \<open>
  Claim C2. For every list of enriched transactions, the sum of the amounts of all buckets
  produced by \<^verbatim>\<open>aggregate_report_transactions\<close> equals the sum of the amounts of all
  transactions, and likewise for the fees and for the net amounts.
\<close>

theorem aggregation_conserves_sums:
  "sum_list (map (b_amount \<circ> snd) (aggregate_report_transactions report_transactions)) =
     sum_list (map s_amount report_transactions)
   \<and> sum_list (map (b_fee \<circ> snd) (aggregate_report_transactions report_transactions)) =
     sum_list (map s_fee report_transactions)
   \<and> sum_list (map (b_net \<circ> snd) (aggregate_report_transactions report_transactions)) =
     sum_list (map s_net report_transactions)"
  by (simp add: aggregate_report_transactions_def sum_list_fold_aggregate_step)

lemma map_of_aggregate_step: "map_of (aggregate_step t d) = map_step t (map_of d)"
  by (simp add: aggregate_step_def Let_def map_step_def add_to_bucket_def update_conv'
      split: option.splits)

lemma map_of_fold_aggregate_step:
  "map_of (fold aggregate_step ts d) = fold map_step ts (map_of d)"
  by (induction ts arbitrary: d) (simp_all add: map_of_aggregate_step)

lemma map_step_commute: "map_step t \<circ> map_step u = map_step u \<circ> map_step t"
proof
  fix m
  show "(map_step t \<circ> map_step u) m = (map_step u \<circ> map_step t) m"
  proof (cases "s_product t = s_product u")
    case True
    then show ?thesis
      by (cases "m (s_product u)") (simp_all add: map_step_def add_to_bucket_def ac_simps)
  next
    case False
    then show ?thesis
      by (auto simp: map_step_def fun_upd_twist)
  qed
qed

lemma distinct_aggregate_step:
  "distinct (map fst d) \<Longrightarrow> distinct (map fst (aggregate_step t d))"
  by (simp add: aggregate_step_def Let_def distinct_update split: option.splits)

lemma distinct_fold_aggregate_step:
  "distinct (map fst d) \<Longrightarrow> distinct (map fst (fold aggregate_step ts d))"
  by (induction ts arbitrary: d) (simp_all add: distinct_aggregate_step)

lemma distinct_aggregate_report_transactions:
  "distinct (map fst (aggregate_report_transactions ts))"
  by (simp add: aggregate_report_transactions_def distinct_fold_aggregate_step)

text \<open>
  Claim C7. For every list of enriched transactions and every permutation of it,
  \<^verbatim>\<open>aggregate_report_transactions\<close> produces equal mappings: the same group keys with the
  same bucket, so the same amount, fee and net sums, for each key.
\<close>

theorem aggregation_order_independent:
  assumes "mset xs = mset ys"
  shows "map_of (aggregate_report_transactions xs) = map_of (aggregate_report_transactions ys)
         \<and> set (aggregate_report_transactions xs) = set (aggregate_report_transactions ys)"
proof -
  have "fold map_step xs = fold map_step ys"
    using assms by (intro fold_multiset_equiv) (simp_all add: map_step_commute)
  then have "map_of (aggregate_report_transactions xs) =
      map_of (aggregate_report_transactions ys)"
    by (simp add: aggregate_report_transactions_def map_of_fold_aggregate_step)
  then show ?thesis
    by (simp add: map_of_inject_set distinct_aggregate_report_transactions)
qed

theorem aggregation_order_independent_witness:
  "mset [scenario_s1, scenario_s2, scenario_s1] = mset [scenario_s2, scenario_s1, scenario_s1]
   \<and> aggregate_report_transactions [scenario_s1, scenario_s2, scenario_s1] =
       [(Some ''Coffee'',
          \<lparr>b_amount = 2000, b_fee = 60, b_net = 1940, b_product = Some ''Coffee''\<rparr>),
        (None, \<lparr>b_amount = 500, b_fee = 15, b_net = 485, b_product = None\<rparr>)]
   \<and> aggregate_report_transactions [scenario_s2, scenario_s1, scenario_s1] =
       [(None, \<lparr>b_amount = 500, b_fee = 15, b_net = 485, b_product = None\<rparr>),
        (Some ''Coffee'',
          \<lparr>b_amount = 2000, b_fee = 60, b_net = 1940, b_product = Some ''Coffee''\<rparr>)]
   \<and> map_of (aggregate_report_transactions [scenario_s1, scenario_s2, scenario_s1]) =
       map_of (aggregate_report_transactions [scenario_s2, scenario_s1, scenario_s1])"
  using aggregation_order_independent
    [of "[scenario_s1, scenario_s2, scenario_s1]" "[scenario_s2, scenario_s1, scenario_s1]"]
  by (simp add: aggregate_report_transactions_def aggregate_step_def Let_def scenario_s1_def
      scenario_s2_def)


section \<open>Properties of the structured dump\<close>

lemma update_absent: "k \<notin> fst ` set al \<Longrightarrow> AList.update k v al = al @ [(k, v)]"
  by (induction al) auto

lemma fold_update_distinct:
  "distinct (map fst (acc @ pairs)) \<Longrightarrow>
     fold (\<lambda>(k, v). AList.update k v) pairs acc = acc @ pairs"
proof (induction pairs arbitrary: acc)
  case Nil
  then show ?case by simp
next
  case (Cons p pairs)
  obtain k v where p: "p = (k, v)" by (cases p)
  from Cons.prems p have "k \<notin> fst ` set acc" by auto
  then have "AList.update k v acc = acc @ [(k, v)]" by (rule update_absent)
  moreover from Cons.prems p have "distinct (map fst ((acc @ [(k, v)]) @ pairs))" by simp
  ultimately show ?case
    using Cons.IH [of "acc @ [(k, v)]"] p by simp
qed

lemma dict_of_pairs_distinct: "distinct (map fst pairs) \<Longrightarrow> dict_of_pairs pairs = pairs"
  using fold_update_distinct [of "[]" pairs] by (simp add: dict_of_pairs_def)

lemma optional_str_roundtrip: "json_load (json_dumps (optional_str s)) = optional_str s"
  by (cases s) (simp_all add: optional_str_def)

lemma simplified_transaction_roundtrip:
  "json_load (json_dumps (simplified_transaction_py t)) = simplified_transaction_py t"
  by (simp add: simplified_transaction_py_def json_key_def dict_of_pairs_def
      optional_str_roundtrip)

lemma aggregate_bucket_roundtrip:
  "json_load (json_dumps (aggregate_bucket_py b)) = aggregate_bucket_py b"
  by (simp add: aggregate_bucket_py_def json_key_def dict_of_pairs_def optional_str_roundtrip)


lemma scenario_aggregation:
  "aggregate_report_transactions [scenario_s1, scenario_s2] =
     [(Some ''Coffee'',
        \<lparr>b_amount = 1000, b_fee = 30, b_net = 970, b_product = Some ''Coffee''\<rparr>),
      (None, \<lparr>b_amount = 500, b_fee = 15, b_net = 485, b_product = None\<rparr>)]"
  by (simp add: aggregate_report_transactions_def aggregate_step_def Let_def scenario_s1_def
      scenario_s2_def)

lemma json_key_inj_on:
  assumes "None \<in> K \<Longrightarrow> Some ''null'' \<notin> K"
  shows "inj_on json_key K"
proof (rule inj_onI)
  fix x y
  assume "x \<in> K" "y \<in> K" "json_key x = json_key y"
  with assms show "x = y"
    by (cases x; cases y) (auto simp: json_key_def)
qed

lemma aggregation_roundtrip:
  assumes "distinct (map fst agg)"
    and "None \<in> fst ` set agg \<Longrightarrow> Some ''null'' \<notin> fst ` set agg"
  shows "json_load (json_dumps (PDict (map (\<lambda>(p, b). (p, aggregate_bucket_py b)) agg))) =
           PDict (map (\<lambda>(p, b). (Some (json_key p), aggregate_bucket_py b)) agg)"
proof -
  let ?pairs = "map (\<lambda>(p, b). (Some (json_key p), aggregate_bucket_py b)) agg"
  have "inj_on json_key (fst ` set agg)"
    using assms(2) by (rule json_key_inj_on)
  then have "inj_on (Some \<circ> json_key) (set (map fst agg))"
    by (auto simp: inj_on_def)
  with assms(1) have "distinct (map (Some \<circ> json_key) (map fst agg))"
    by (simp only: distinct_map)
  moreover have "map fst ?pairs = map (Some \<circ> json_key) (map fst agg)"
    by (simp add: case_prod_beta)
  ultimately have "distinct (map fst ?pairs)"
    by (simp only:)
  then have "dict_of_pairs ?pairs = ?pairs"
    by (rule dict_of_pairs_distinct)
  moreover have
    "map (\<lambda>(k, v). (Some k, json_load v))
       (map (\<lambda>(k, v). (json_key k, json_dumps v))
         (map (\<lambda>(p, b). (p, aggregate_bucket_py b)) agg)) = ?pairs"
    by (simp add: case_prod_beta aggregate_bucket_roundtrip)
  moreover have
    "json_load (json_dumps (PDict items)) =
       PDict (dict_of_pairs (map (\<lambda>(k, v). (Some k, json_load v))
         (map (\<lambda>(k, v). (json_key k, json_dumps v)) items)))" for items
    by simp
  ultimately show ?thesis
    by (simp only:)
qed

text \<open>
  Claim C4, as amended. For every report whose group keys do not hold both the null product
  and a product named \<^verbatim>\<open>null\<close>, dumping the report with \<^verbatim>\<open>json.dumps\<close> and reloading it
  with \<^verbatim>\<open>read_report_data_from_json\<close> yields the same payout identifier, the same
  transactions in the same order and the same buckets in the same order, hence the same
  transaction count and the same sums of amount, fee and net; the group keys are the same
  except that the key of the null-product group becomes the string \<^verbatim>\<open>null\<close>.
\<close>

theorem json_roundtrip_report:
  assumes "distinct (map fst (r_aggregation report_data))"
    and "None \<in> fst ` set (r_aggregation report_data) \<Longrightarrow>
           Some ''null'' \<notin> fst ` set (r_aggregation report_data)"
  shows "read_report_data_from_json (json_dumps (report_py report_data)) =
           report_py (report_data\<lparr>r_aggregation :=
             map (\<lambda>(product, bucket). (Some (json_key product), bucket))
               (r_aggregation report_data)\<rparr>)"
proof -
  have list_roundtrip:
    "json_load (json_dumps (PList (map simplified_transaction_py ts))) =
       PList (map simplified_transaction_py ts)" for ts
    by (simp add: simplified_transaction_roundtrip)
  have "json_load (json_dumps (PDict [(Some ''balance_payout_id'', a), (Some ''transactions'', b),
            (Some ''aggregation'', c)])) =
          PDict [(Some ''balance_payout_id'', json_load (json_dumps a)),
            (Some ''transactions'', json_load (json_dumps b)),
            (Some ''aggregation'', json_load (json_dumps c))]" for a b c
    by (simp add: json_key_def dict_of_pairs_def)
  then show ?thesis
    unfolding report_py_def read_report_data_from_json_def Let_def
    by (simp only: list_roundtrip aggregation_roundtrip [OF assms])
      (simp add: case_prod_beta)
qed

theorem json_roundtrip_report_witness:
  "read_report_data_from_json (json_dumps (report_py scenario_report)) =
     report_py (scenario_report\<lparr>r_aggregation :=
       [(Some ''Coffee'',
          \<lparr>b_amount = 1000, b_fee = 30, b_net = 970, b_product = Some ''Coffee''\<rparr>),
        (Some ''null'', \<lparr>b_amount = 500, b_fee = 15, b_net = 485, b_product = None\<rparr>)]\<rparr>)"
  using json_roundtrip_report [of scenario_report]
  by (simp add: scenario_report_def scenario_aggregation json_key_def)

text \<open>
  Claim C4, as stated, fails on the scenario of the specification: the report has the group
  keys \<^verbatim>\<open>Coffee\<close> and \<^verbatim>\<open>None\<close>, the reloaded report the keys \<^verbatim>\<open>Coffee\<close> and the string
  \<^verbatim>\<open>null\<close>.
\<close>

theorem json_roundtrip_changes_null_key:
  "group_keys (report_py scenario_report) = Inr [Some ''Coffee'', None]
   \<and> group_keys (read_report_data_from_json (json_dumps (report_py scenario_report))) =
       Inr [Some ''Coffee'', Some ''null'']"
  by (simp add: group_keys_def report_py_def read_report_data_from_json_def scenario_report_def
      scenario_aggregation json_key_def dict_of_pairs_def)

text \<open>
  When the group keys hold both the null product and a product named \<^verbatim>\<open>null\<close>, the two
  groups are written under the same name and only one bucket is read back.
\<close>

lemma json_roundtrip_null_collision:
  "group_keys (read_report_data_from_json (json_dumps (report_py
     \<lparr>r_balance_payout_id = ''po_1'', r_transactions = [],
      r_aggregation =
        [(None, \<lparr>b_amount = 500, b_fee = 15, b_net = 485, b_product = None\<rparr>),
         (Some ''null'',
            \<lparr>b_amount = 1000, b_fee = 30, b_net = 970, b_product = Some ''null''\<rparr>)]\<rparr>))) =
     Inr [Some ''null'']"
  by (simp add: group_keys_def report_py_def read_report_data_from_json_def json_key_def
      dict_of_pairs_def)


section \<open>Properties of the tabular export\<close>

lemma zfill_decimal: "n < 100 \<Longrightarrow> zfill 2 (decimal n) = two_digits n"
proof (cases "n < 10")
  case True
  then show ?thesis
    by (simp add: decimal.simps [of n] zfill_def two_digits_def digit_char_def)
next
  case False
  assume "n < 100"
  with False have "n div 10 < 10" by simp
  with False show ?thesis
    by (simp add: decimal.simps [of n] decimal.simps [of "n div 10"] zfill_def two_digits_def)
qed

lemma decimal_four_digits:
  assumes "1000 \<le> n" and "n < 10000"
  shows "decimal n = four_digits n"
proof -
  have "\<not> n < 10" "\<not> n div 10 < 10" "\<not> n div 10 div 10 < 10" "n div 10 div 10 div 10 < 10"
    using assms by simp_all
  then have "decimal n =
      [digit_char (n div 10 div 10 div 10), digit_char (n div 10 div 10 mod 10),
       digit_char (n div 10 mod 10), digit_char (n mod 10)]"
    by (simp add: decimal.simps [of n] decimal.simps [of "n div 10"]
        decimal.simps [of "n div 10 div 10"] decimal.simps [of "n div 10 div 10 div 10"])
  moreover have "n div 10 div 10 div 10 = n div 1000" "n div 10 div 10 = n div 100"
    by (simp_all add: div_mult2_eq [symmetric])
  ultimately show ?thesis
    by (simp add: four_digits_def)
qed

lemma strftime_utc_string:
  assumes "valid_datetime dt" and "1000 \<le> dt_year dt"
  shows "strftime dt ''%Y-%m-%d %H:%M:%S'' = spec_utc_string dt"
proof -
  have "dt_day dt \<le> 31"
    using assms(1) by (auto simp: valid_datetime_def days_in_month_def split: if_splits)
  with assms show ?thesis
    by (simp add: directive_def spec_utc_string_def valid_datetime_def zfill_decimal
        decimal_four_digits)
qed

lemma write_headers_cells:
  "write_headers worksheet row idx headers =
     (\<lambda>(r, c).
        if r = row \<and> idx < c \<and> c \<le> idx + length headers
        then Some (Value (PStr (headers ! (c - idx - 1))))
        else worksheet (r, c))"
proof (induction headers arbitrary: worksheet idx)
  case Nil
  then show ?case by (auto simp: fun_eq_iff)
next
  case (Cons header headers)
  show ?case
    unfolding write_headers.simps Cons.IH
    by (auto simp: fun_eq_iff nth_Cons' Suc_diff_Suc)
qed

lemma write_row_cells:
  "list_all2 (\<lambda>key v. format_for_worksheet U data key = Inr v) keys cells \<Longrightarrow>
     write_row U worksheet row idx data keys =
       Inr (\<lambda>(r, c).
              if r = row \<and> idx < c \<and> c \<le> idx + length cells
              then Some (cells ! (c - idx - 1))
              else worksheet (r, c))"
proof (induction keys cells arbitrary: worksheet idx rule: list_all2_induct)
  case Nil
  then show ?case by (auto simp: fun_eq_iff)
next
  case (Cons key keys v cells)
  show ?case
    unfolding write_row.simps Cons.hyps(1) sum.case Cons.IH
    by (auto simp: fun_eq_iff nth_Cons' Suc_diff_Suc)
qed

lemma write_headers_put_rows:
  "write_headers worksheet row 0 headers =
     put_rows worksheet row [map (\<lambda>header. Value (PStr header)) headers]"
  by (auto simp: write_headers_cells put_rows_def fun_eq_iff)

lemma write_row_put_rows:
  "list_all2 (\<lambda>key v. format_for_worksheet U data key = Inr v) keys cells \<Longrightarrow>
     write_row U worksheet row 0 data keys = Inr (put_rows worksheet row [cells])"
  by (auto simp: write_row_cells put_rows_def fun_eq_iff)

lemma put_rows_Nil: "put_rows worksheet start [] = worksheet"
  by (auto simp: put_rows_def fun_eq_iff)

lemma put_rows_Cons:
  "put_rows (put_rows worksheet start [cells]) (Suc start) rows =
     put_rows worksheet start (cells # rows)"
  by (auto simp: put_rows_def fun_eq_iff nth_Cons' Suc_diff_le)

lemma format_aggregation_row:
  assumes "fits_float (b_amount bucket)" "fits_float (b_fee bucket)" "fits_float (b_net bucket)"
  shows "list_all2 (\<lambda>key v. format_for_worksheet U (aggregate_bucket_py bucket) key = Inr v)
     [''product'', ''amount'', ''fee'', ''net''] (spec_aggregation_row bucket)"
  using assms
  by (simp add: format_for_worksheet_def aggregate_bucket_py_def spec_aggregation_row_def
      truediv_def fits_float_def)

lemma format_detail_row:
  assumes "fits_float (s_amount t)" "fits_float (s_fee t)" "fits_float (s_net t)"
    and "U (s_created t) = Inr dt" and "valid_datetime dt" and "1000 \<le> dt_year dt"
  shows "list_all2 (\<lambda>key v. format_for_worksheet U (simplified_transaction_py t) key = Inr v)
       [''id'', ''created'', ''amount'', ''currency'', ''fee'', ''net'', ''product'', ''name'',
        ''email'']
       (spec_detail_row t dt)"
  using assms(1-4) strftime_utc_string [OF assms(5,6)]
  by (simp add: format_for_worksheet_def simplified_transaction_py_def spec_detail_row_def
      truediv_def fits_float_def)

lemma write_aggregation_rows_put_rows:
  "list_all2 (\<lambda>k b. map_of aggregation k = Some b) keys buckets \<Longrightarrow>
   list_all2 (\<lambda>b cells. list_all2
       (\<lambda>key v. format_for_worksheet U (aggregate_bucket_py b) key = Inr v) hs cells)
     buckets rows \<Longrightarrow>
     write_aggregation_rows U worksheet row_idx keys aggregation hs =
       Inr (put_rows worksheet (row_idx + 2) rows)"
proof (induction keys buckets arbitrary: worksheet row_idx rows rule: list_all2_induct)
  case Nil
  then show ?case by (simp add: put_rows_Nil)
next
  case (Cons k keys b buckets)
  from Cons.prems obtain cells rows' where rows: "rows = cells # rows'"
    and cells: "list_all2 (\<lambda>key v. format_for_worksheet U (aggregate_bucket_py b) key = Inr v)
        hs cells"
    and rest: "list_all2 (\<lambda>b cells. list_all2
        (\<lambda>key v. format_for_worksheet U (aggregate_bucket_py b) key = Inr v) hs cells)
        buckets rows'"
    by (auto simp: list_all2_Cons1)
  have "write_row U worksheet (row_idx + 2) 0 (aggregate_bucket_py b) hs =
        Inr (put_rows worksheet (row_idx + 2) [cells])"
    using cells by (rule write_row_put_rows)
  then show ?case
    using Cons.hyps(1) Cons.IH [OF rest, of "put_rows worksheet (row_idx + 2) [cells]"
        "Suc row_idx"]
    by (simp add: rows put_rows_Cons)
qed

lemma write_transaction_rows_put_rows:
  "list_all2 (\<lambda>t cells. list_all2
       (\<lambda>key v. format_for_worksheet U (simplified_transaction_py t) key = Inr v) hs cells)
     transactions rows \<Longrightarrow>
     write_transaction_rows U worksheet aggregation_len row_idx transactions hs =
       Inr (put_rows worksheet (row_idx + 2 + aggregation_len) rows)"
proof (induction transactions rows arbitrary: worksheet row_idx rule: list_all2_induct)
  case Nil
  then show ?case by (simp add: put_rows_Nil)
next
  case (Cons t transactions cells rows)
  have "write_row U worksheet (row_idx + 2 + aggregation_len) 0 (simplified_transaction_py t) hs =
        Inr (put_rows worksheet (row_idx + 2 + aggregation_len) [cells])"
    using Cons.hyps(1) by (rule write_row_put_rows)
  then show ?case
    using Cons.IH [of "put_rows worksheet (row_idx + 2 + aggregation_len) [cells]"
        "Suc row_idx"]
    by (simp add: put_rows_Cons)
qed

lemma list_all2_mapI:
  "(\<And>x. x \<in> set xs \<Longrightarrow> P (f x) (g x)) \<Longrightarrow> list_all2 P (map f xs) (map g xs)"
  by (induction xs) simp_all

lemma list_all2_map_rightI:
  "(\<And>x. x \<in> set xs \<Longrightarrow> P x (g x)) \<Longrightarrow> list_all2 P xs (map g xs)"
  by (induction xs) simp_all

lemma distinct_lookup_all:
  "distinct (map fst al) \<Longrightarrow>
     list_all2 (\<lambda>k b. map_of al k = Some b) (map fst al) (map snd al)"
  by (simp add: list_all2_conv_all_nth)

lemma save_to_worksheet_put_rows:
  assumes "distinct (map fst (r_aggregation report_data))"
    and "list_all2 (\<lambda>b cells. list_all2
           (\<lambda>key v. format_for_worksheet U (aggregate_bucket_py b) key = Inr v)
           [''product'', ''amount'', ''fee'', ''net''] cells)
         (map snd (r_aggregation report_data)) bucket_rows"
    and "list_all2 (\<lambda>t cells. list_all2
           (\<lambda>key v. format_for_worksheet U (simplified_transaction_py t) key = Inr v)
           [''id'', ''created'', ''amount'', ''currency'', ''fee'', ''net'', ''product'',
            ''name'', ''email''] cells)
         (r_transactions report_data) detail_rows"
  shows "save_to_worksheet U report_data =
     Inr (put_rows
           (put_rows
             (put_rows
               (put_rows Map.empty 1
                 [map (\<lambda>header. Value (PStr header)) [''product'', ''amount'', ''fee'', ''net'']])
               2 bucket_rows)
             (length (r_aggregation report_data) + 3)
             [map (\<lambda>header. Value (PStr header))
                [''id'', ''created'', ''amount'', ''currency'', ''fee'', ''net'', ''product'',
                 ''name'', ''email'']])
           (length (r_aggregation report_data) + 4)
           detail_rows)"
  unfolding save_to_worksheet_def Let_def append.simps write_headers_put_rows
    write_aggregation_rows_put_rows [OF distinct_lookup_all [OF assms(1)] assms(2)] sum.case
    write_transaction_rows_put_rows [OF assms(3)]
  by (simp add: eval_nat_numeral)

lemma put_rows_outside:
  "r < start \<or> start + length rows \<le> r \<Longrightarrow> put_rows worksheet start rows (r, c) = worksheet (r, c)"
  by (auto simp: put_rows_def)

lemma worksheet_row_outside:
  "r < start \<or> start + length rows \<le> r \<Longrightarrow>
     worksheet_row (put_rows worksheet start rows) r w = worksheet_row worksheet r w"
  by (simp add: worksheet_row_def put_rows_outside)

lemma worksheet_row_inside:
  "start \<le> r \<Longrightarrow> r < start + length rows \<Longrightarrow> length (rows ! (r - start)) = w \<Longrightarrow>
     worksheet_row (put_rows worksheet start rows) r w = map Some (rows ! (r - start))"
  by (auto simp: worksheet_row_def put_rows_def intro!: nth_equalityI)

lemma example_utcfromtimestamp_values:
  "example_utcfromtimestamp 1700000000 =
     Inr \<lparr>dt_year = 2023, dt_month = 11, dt_day = 14, dt_hour = 22, dt_minute = 13,
          dt_second = 20\<rparr>"
  "example_utcfromtimestamp 1700000060 =
     Inr \<lparr>dt_year = 2023, dt_month = 11, dt_day = 14, dt_hour = 22, dt_minute = 14,
          dt_second = 20\<rparr>"
  "example_utcfromtimestamp (- 30610224001) =
     Inr \<lparr>dt_year = 999, dt_month = 12, dt_day = 31, dt_hour = 23, dt_minute = 59,
          dt_second = 59\<rparr>"
  "example_utcfromtimestamp 0 =
     Inr \<lparr>dt_year = 1970, dt_month = 1, dt_day = 1, dt_hour = 0, dt_minute = 0,
          dt_second = 0\<rparr>"
  "example_utcfromtimestamp 951782400 =
     Inr \<lparr>dt_year = 2000, dt_month = 2, dt_day = 29, dt_hour = 0, dt_minute = 0,
          dt_second = 0\<rparr>"
  "example_utcfromtimestamp 253402300800 = Inl ValueError"
  by code_simp+

lemma utc_datetime_values:
  "utc_datetime \<lparr>dt_year = 2023, dt_month = 11, dt_day = 14, dt_hour = 22, dt_minute = 13,
     dt_second = 20\<rparr> 1700000000"
  "utc_datetime \<lparr>dt_year = 2023, dt_month = 11, dt_day = 14, dt_hour = 22, dt_minute = 14,
     dt_second = 20\<rparr> 1700000060"
  "utc_datetime \<lparr>dt_year = 999, dt_month = 12, dt_day = 31, dt_hour = 23, dt_minute = 59,
     dt_second = 59\<rparr> (- 30610224001)"
  "utc_datetime \<lparr>dt_year = 2000, dt_month = 2, dt_day = 29, dt_hour = 0, dt_minute = 0,
     dt_second = 0\<rparr> 951782400"
  by (simp_all add: utc_datetime_def valid_datetime_def epoch_seconds_def ordinal_def
      days_before_year_def days_before_month_def days_in_month_def is_leap_def)

lemma strftime_year_999:
  "strftime \<lparr>dt_year = 999, dt_month = 12, dt_day = 31, dt_hour = 23, dt_minute = 59,
     dt_second = 59\<rparr> ''%Y-%m-%d %H:%M:%S'' = ''999-12-31 23:59:59''"
  by code_simp

lemma fits_float_small: "\<bar>a\<bar> \<le> 10 ^ 300 \<Longrightarrow> fits_float a"
proof -
  assume "\<bar>a\<bar> \<le> 10 ^ 300"
  then have "\<bar>real_of_int a\<bar> \<le> 10 ^ 300"
    by (metis of_int_abs of_int_le_iff of_int_numeral of_int_power)
  moreover have "(10::real) ^ 300 < 100 * (2 ^ 1024 - 2 ^ 970)"
    by simp
  ultimately show ?thesis
    by (simp add: fits_float_def float_overflow_def)
qed

lemma float_overflow_example: "float_overflow (real_of_int (10 ^ 400) / 100)"
  by (simp add: float_overflow_def)

lemma scenario_rows:
  "r_aggregation scenario_report =
      [(Some ''Coffee'',
          \<lparr>b_amount = 1000, b_fee = 30, b_net = 970, b_product = Some ''Coffee''\<rparr>),
       (None, \<lparr>b_amount = 500, b_fee = 15, b_net = 485, b_product = None\<rparr>)]"
  "r_transactions scenario_report = [scenario_s1, scenario_s2]"
  by (simp_all add: scenario_report_def scenario_aggregation)

lemma fits_float_scenario:
  "fits_float 1000" "fits_float 30" "fits_float 970" "fits_float 500" "fits_float 15"
  "fits_float 485"
  by (simp_all add: fits_float_small)

lemma scenario_buckets_fit: "\<forall>bucket \<in> snd ` set (r_aggregation scenario_report).
      fits_float (b_amount bucket) \<and> fits_float (b_fee bucket) \<and> fits_float (b_net bucket)"
  by (simp add: scenario_rows fits_float_scenario)

lemma scenario_transactions_valid: "\<forall>t \<in> set (r_transactions scenario_report).
      fits_float (s_amount t) \<and> fits_float (s_fee t) \<and> fits_float (s_net t)
      \<and> (\<exists>dt. example_utcfromtimestamp (s_created t) = Inr dt
            \<and> utc_datetime dt (s_created t) \<and> 1000 \<le> dt_year dt)"
  by (simp add: scenario_rows scenario_s1_def scenario_s2_def fits_float_scenario
      example_utcfromtimestamp_values utc_datetime_values)

text \<open>
  Claim C8, as amended. For every report whose amounts, fees and nets, of the buckets and of
  the transactions, are within the range of a float when divided by 100, and whose creation
  timestamps \<^verbatim>\<open>utcfromtimestamp\<close> converts to their date and time in UTC with a year of
  four digits, \<^verbatim>\<open>save_to_worksheet\<close> writes the aggregation header in row 1 and one row per
  bucket from row 2 on; the row after the last row of the aggregation block is blank and the
  detail header is in the row after it, so that exactly one blank row lies between the two
  blocks; one row per transaction follows. In the bucket rows and in the transaction rows
  the amount, fee and net are divided by 100, and the creation timestamp is written as the
  string \<^verbatim>\<open>YYYY-MM-DD HH:MM:SS\<close> of its date and time in UTC.
\<close>

theorem save_to_worksheet_layout:
  assumes "distinct (map fst (r_aggregation report_data))"
    and "\<forall>bucket \<in> snd ` set (r_aggregation report_data).
           fits_float (b_amount bucket) \<and> fits_float (b_fee bucket) \<and> fits_float (b_net bucket)"
    and "\<forall>t \<in> set (r_transactions report_data).
           fits_float (s_amount t) \<and> fits_float (s_fee t) \<and> fits_float (s_net t)
           \<and> (\<exists>dt. utcfromtimestamp (s_created t) = Inr dt \<and> utc_datetime dt (s_created t)
                 \<and> 1000 \<le> dt_year dt)"
  shows "\<exists>worksheet.
      save_to_worksheet utcfromtimestamp report_data = Inr worksheet
    \<and> worksheet_row worksheet 1 4 =
        map (\<lambda>header. Some (Value (PStr header))) [''product'', ''amount'', ''fee'', ''net'']
    \<and> (\<forall>i < length (r_aggregation report_data).
          worksheet_row worksheet (i + 2) 4 =
            map Some (spec_aggregation_row (snd (r_aggregation report_data ! i))))
    \<and> (\<forall>c. worksheet (length (r_aggregation report_data) + 2, c) = None)
    \<and> worksheet_row worksheet (length (r_aggregation report_data) + 3) 9 =
        map (\<lambda>header. Some (Value (PStr header)))
          [''id'', ''created'', ''amount'', ''currency'', ''fee'', ''net'', ''product'',
           ''name'', ''email'']
    \<and> (\<forall>j < length (r_transactions report_data).
          \<exists>dt. utcfromtimestamp (s_created (r_transactions report_data ! j)) = Inr dt
            \<and> utc_datetime dt (s_created (r_transactions report_data ! j))
            \<and> worksheet_row worksheet (length (r_aggregation report_data) + 4 + j) 9 =
                map Some (spec_detail_row (r_transactions report_data ! j) dt))"
proof -
  let ?U = utcfromtimestamp
  let ?n = "length (r_aggregation report_data)"
  let ?ts = "r_transactions report_data"
  obtain f where f: "\<forall>t \<in> set ?ts. ?U (s_created t) = Inr (f t)
      \<and> utc_datetime (f t) (s_created t) \<and> 1000 \<le> dt_year (f t)"
    using assms(3) by (atomize_elim, intro bchoice) blast
  let ?h1 = "[map (\<lambda>header. Value (PStr header)) [''product'', ''amount'', ''fee'', ''net'']]"
  let ?h2 = "[map (\<lambda>header. Value (PStr header))
      [''id'', ''created'', ''amount'', ''currency'', ''fee'', ''net'', ''product'',
       ''name'', ''email'']]"
  let ?buckets = "map (\<lambda>x. spec_aggregation_row (snd x)) (r_aggregation report_data)"
  let ?details = "map (\<lambda>t. spec_detail_row t (f t)) ?ts"
  let ?w1 = "put_rows Map.empty 1 ?h1"
  let ?w2 = "put_rows ?w1 2 ?buckets"
  let ?w3 = "put_rows ?w2 (?n + 3) ?h2"
  let ?w4 = "put_rows ?w3 (?n + 4) ?details"
  have bucket_rows: "list_all2 (\<lambda>b cells. list_all2
      (\<lambda>key v. format_for_worksheet ?U (aggregate_bucket_py b) key = Inr v)
      [''product'', ''amount'', ''fee'', ''net''] cells)
      (map snd (r_aggregation report_data)) ?buckets"
  proof (rule list_all2_mapI)
    fix x
    assume "x \<in> set (r_aggregation report_data)"
    with assms(2) have "fits_float (b_amount (snd x))" "fits_float (b_fee (snd x))"
      "fits_float (b_net (snd x))"
      by auto
    then show "list_all2
        (\<lambda>key v. format_for_worksheet ?U (aggregate_bucket_py (snd x)) key = Inr v)
        [''product'', ''amount'', ''fee'', ''net''] (spec_aggregation_row (snd x))"
      by (rule format_aggregation_row)
  qed
  have detail_rows: "list_all2 (\<lambda>t cells. list_all2
      (\<lambda>key v. format_for_worksheet ?U (simplified_transaction_py t) key = Inr v)
      [''id'', ''created'', ''amount'', ''currency'', ''fee'', ''net'', ''product'',
       ''name'', ''email''] cells)
      ?ts ?details"
  proof (rule list_all2_map_rightI)
    fix t
    assume t: "t \<in> set ?ts"
    with assms(3) have "fits_float (s_amount t)" "fits_float (s_fee t)" "fits_float (s_net t)"
      by auto
    moreover from t f have "?U (s_created t) = Inr (f t)" "valid_datetime (f t)"
      "1000 \<le> dt_year (f t)"
      by (auto simp: utc_datetime_def)
    ultimately show "list_all2
        (\<lambda>key v. format_for_worksheet ?U (simplified_transaction_py t) key = Inr v)
        [''id'', ''created'', ''amount'', ''currency'', ''fee'', ''net'', ''product'',
         ''name'', ''email''] (spec_detail_row t (f t))"
      by (rule format_detail_row)
  qed
  have saved: "save_to_worksheet ?U report_data = Inr ?w4"
    using assms(1) bucket_rows detail_rows by (rule save_to_worksheet_put_rows)
  have header1: "worksheet_row ?w4 1 4 =
      map (\<lambda>header. Some (Value (PStr header))) [''product'', ''amount'', ''fee'', ''net'']"
    by (simp add: worksheet_row_outside worksheet_row_inside)
  have buckets: "worksheet_row ?w4 (i + 2) 4 =
      map Some (spec_aggregation_row (snd (r_aggregation report_data ! i)))" if "i < ?n" for i
    using that
    by (simp add: worksheet_row_outside worksheet_row_inside spec_aggregation_row_def)
  have blank: "?w4 (?n + 2, c) = None" for c
    by (simp add: put_rows_outside)
  have header2: "worksheet_row ?w4 (?n + 3) 9 =
      map (\<lambda>header. Some (Value (PStr header)))
        [''id'', ''created'', ''amount'', ''currency'', ''fee'', ''net'', ''product'',
         ''name'', ''email'']"
    by (simp add: worksheet_row_outside worksheet_row_inside)
  have details: "\<exists>dt. ?U (s_created (?ts ! j)) = Inr dt
      \<and> utc_datetime dt (s_created (?ts ! j))
      \<and> worksheet_row ?w4 (?n + 4 + j) 9 = map Some (spec_detail_row (?ts ! j) dt)"
    if "j < length ?ts" for j
  proof -
    from that f have "?U (s_created (?ts ! j)) = Inr (f (?ts ! j))"
      "utc_datetime (f (?ts ! j)) (s_created (?ts ! j))"
      by simp_all
    moreover from that have "worksheet_row ?w4 (?n + 4 + j) 9 =
        map Some (spec_detail_row (?ts ! j) (f (?ts ! j)))"
      by (simp add: worksheet_row_inside spec_detail_row_def)
    ultimately show ?thesis by blast
  qed
  from saved header1 buckets blank header2 details show ?thesis
    by blast
qed

theorem save_to_worksheet_layout_witness:
  "\<exists>worksheet.
      save_to_worksheet example_utcfromtimestamp scenario_report = Inr worksheet
    \<and> worksheet_row worksheet 2 4 =
        [Some (Value (PStr ''Coffee'')), Some (Float 10), Some (Float (3 / 10)),
         Some (Float (97 / 10))]
    \<and> worksheet_row worksheet 3 4 =
        [Some (Value PNone), Some (Float 5), Some (Float (3 / 20)), Some (Float (97 / 20))]
    \<and> worksheet (4, 1) = None
    \<and> worksheet_row worksheet 6 9 =
        [Some (Value (PStr ''t1'')), Some (Value (PStr ''2023-11-14 22:13:20'')),
         Some (Float 10), Some (Value (PStr ''eur'')), Some (Float (3 / 10)),
         Some (Float (97 / 10)), Some (Value (PStr ''Coffee'')), Some (Value (PStr ''A'')),
         Some (Value (PStr ''a@x.com''))]"
proof -
  have keys: "distinct (map fst (r_aggregation scenario_report))"
    by (simp add: scenario_rows)
  from save_to_worksheet_layout [OF keys scenario_buckets_fit scenario_transactions_valid]
  obtain worksheet where saved:
      "save_to_worksheet example_utcfromtimestamp scenario_report = Inr worksheet"
    and buckets: "\<forall>i < length (r_aggregation scenario_report).
          worksheet_row worksheet (i + 2) 4 =
            map Some (spec_aggregation_row (snd (r_aggregation scenario_report ! i)))"
    and blank: "\<forall>c. worksheet (length (r_aggregation scenario_report) + 2, c) = None"
    and details: "\<forall>j < length (r_transactions scenario_report).
          \<exists>dt. example_utcfromtimestamp (s_created (r_transactions scenario_report ! j)) = Inr dt
            \<and> utc_datetime dt (s_created (r_transactions scenario_report ! j))
            \<and> worksheet_row worksheet (length (r_aggregation scenario_report) + 4 + j) 9 =
                map Some (spec_detail_row (r_transactions scenario_report ! j) dt)"
    by (elim exE conjE)
  have len: "length (r_aggregation scenario_report) = 2"
    and tlen: "length (r_transactions scenario_report) = 2"
    and b0: "snd (r_aggregation scenario_report ! 0) =
      \<lparr>b_amount = 1000, b_fee = 30, b_net = 970, b_product = Some ''Coffee''\<rparr>"
    and b1: "snd (r_aggregation scenario_report ! 1) =
      \<lparr>b_amount = 500, b_fee = 15, b_net = 485, b_product = None\<rparr>"
    and t0: "r_transactions scenario_report ! 0 = scenario_s1"
    by (simp_all add: scenario_rows)
  have row2: "worksheet_row worksheet 2 4 =
      [Some (Value (PStr ''Coffee'')), Some (Float 10), Some (Float (3 / 10)),
       Some (Float (97 / 10))]"
    using buckets [rule_format, of 0]
    by (simp add: scenario_rows spec_aggregation_row_def optional_str_def eval_nat_numeral)
  have row3: "worksheet_row worksheet 3 4 =
      [Some (Value PNone), Some (Float 5), Some (Float (3 / 20)), Some (Float (97 / 20))]"
    using buckets [rule_format, of 1]
    by (simp add: scenario_rows spec_aggregation_row_def optional_str_def eval_nat_numeral)
  have row4: "worksheet (4, 1) = None"
    using blank [rule_format, of 1] by (simp add: scenario_rows eval_nat_numeral)
  from details [rule_format, of 0] obtain dt
    where dt: "example_utcfromtimestamp (s_created scenario_s1) = Inr dt"
      and row: "worksheet_row worksheet 6 9 = map Some (spec_detail_row scenario_s1 dt)"
    by (auto simp: len tlen t0)
  from dt have "dt = \<lparr>dt_year = 2023, dt_month = 11, dt_day = 14, dt_hour = 22,
      dt_minute = 13, dt_second = 20\<rparr>"
    by (simp add: scenario_s1_def example_utcfromtimestamp_values)
  with row have row6: "worksheet_row worksheet 6 9 =
      [Some (Value (PStr ''t1'')), Some (Value (PStr ''2023-11-14 22:13:20'')),
       Some (Float 10), Some (Value (PStr ''eur'')), Some (Float (3 / 10)),
       Some (Float (97 / 10)), Some (Value (PStr ''Coffee'')), Some (Value (PStr ''A'')),
       Some (Value (PStr ''a@x.com''))]"
    by (simp add: scenario_s1_def spec_detail_row_def optional_str_def
        spec_utc_string_def four_digits_def two_digits_def digit_char_def)
  from saved row2 row3 row4 row6 show ?thesis
    by (intro exI [of _ worksheet] conjI)
qed

lemma early_report_rows:
  "r_aggregation early_report =
     [(Some ''Coffee'',
        \<lparr>b_amount = 1000, b_fee = 30, b_net = 970, b_product = Some ''Coffee''\<rparr>)]"
  "r_transactions early_report = [scenario_s1\<lparr>s_created := - 30610224001\<rparr>]"
  by (simp_all add: early_report_def aggregate_report_transactions_def aggregate_step_def
      Let_def scenario_s1_def)

text \<open>
  Claim C8, as stated, fails for two reports. With an amount of \<open>10 ^ 400\<close> the division
  by 100 raises \<^verbatim>\<open>OverflowError\<close> and nothing is written. With a creation timestamp in the
  year 999 the cell holds \<^verbatim>\<open>999-12-31 23:59:59\<close>, whose year has three digits.
\<close>

theorem save_to_worksheet_fails_or_short_year:
  "save_to_worksheet example_utcfromtimestamp overflow_report = Inl OverflowError
   \<and> (\<exists>worksheet.
         save_to_worksheet example_utcfromtimestamp early_report = Inr worksheet
       \<and> worksheet (5, 2) = Some (Value (PStr ''999-12-31 23:59:59'')))"
proof
  show "save_to_worksheet example_utcfromtimestamp overflow_report = Inl OverflowError"
    using float_overflow_example
    by (simp add: save_to_worksheet_def overflow_report_def aggregate_report_transactions_def
        aggregate_step_def Let_def scenario_s1_def format_for_worksheet_def
        aggregate_bucket_py_def truediv_def optional_str_def)
next
  let ?t = "scenario_s1\<lparr>s_created := - 30610224001\<rparr>"
  let ?b = "\<lparr>b_amount = 1000, b_fee = 30, b_net = 970, b_product = Some ''Coffee''\<rparr>"
  let ?cells =
    "[Value (PStr ''t1''), Value (PStr ''999-12-31 23:59:59''), Float 10, Value (PStr ''eur''),
      Float (3 / 10), Float (97 / 10), Value (PStr ''Coffee''), Value (PStr ''A''),
      Value (PStr ''a@x.com'')]"
  have keys: "distinct (map fst (r_aggregation early_report))"
    by (simp add: early_report_rows)
  have bucket_rows: "list_all2 (\<lambda>b cells. list_all2
      (\<lambda>key v. format_for_worksheet example_utcfromtimestamp (aggregate_bucket_py b) key = Inr v)
      [''product'', ''amount'', ''fee'', ''net''] cells)
      (map snd (r_aggregation early_report)) [spec_aggregation_row ?b]"
    by (simp add: early_report_rows del: list_all2_Cons)
      (simp add: format_aggregation_row fits_float_small)
  have detail_rows: "list_all2 (\<lambda>t cells. list_all2
      (\<lambda>key v. format_for_worksheet example_utcfromtimestamp (simplified_transaction_py t) key =
         Inr v)
      [''id'', ''created'', ''amount'', ''currency'', ''fee'', ''net'', ''product'',
       ''name'', ''email''] cells)
      (r_transactions early_report) [?cells]"
    using fits_float_small [of 1000] fits_float_small [of 30] fits_float_small [of 970]
    by (simp add: early_report_rows format_for_worksheet_def simplified_transaction_py_def
        scenario_s1_def truediv_def fits_float_def example_utcfromtimestamp_values
        strftime_year_999 optional_str_def del: strftime.simps)
  have "save_to_worksheet example_utcfromtimestamp early_report =
      Inr (put_rows
           (put_rows
             (put_rows
               (put_rows Map.empty 1
                 [map (\<lambda>header. Value (PStr header)) [''product'', ''amount'', ''fee'', ''net'']])
               2 [spec_aggregation_row ?b])
             (length (r_aggregation early_report) + 3)
             [map (\<lambda>header. Value (PStr header))
                [''id'', ''created'', ''amount'', ''currency'', ''fee'', ''net'', ''product'',
                 ''name'', ''email'']])
           (length (r_aggregation early_report) + 4)
           [?cells])"
    using keys bucket_rows detail_rows by (rule save_to_worksheet_put_rows)
  then show "\<exists>worksheet.
         save_to_worksheet example_utcfromtimestamp early_report = Inr worksheet
       \<and> worksheet (5, 2) = Some (Value (PStr ''999-12-31 23:59:59''))"
    by (simp add: early_report_rows put_rows_def)
qed


section \<open>Properties of the entry point\<close>

lemma main_always_raises: "main api_key run = Inl AttributeError"
  by (simp add: main_def str_getattr_def)

text \<open>
  Claim C9. The claim is that a restricted key, one that starts with \<^verbatim>\<open>rk_\<close>, passes the
  validation of \<^verbatim>\<open>main\<close> and the run proceeds. \<^verbatim>\<open>main\<close> calls \<^verbatim>\<open>startsWith\<close>, which a
  string does not have, so that for a restricted key too it raises \<^verbatim>\<open>AttributeError\<close> and
  the rest of the program does not run.
\<close>

theorem main_restricted_key_raises:
  "prefix ''rk_'' ''rk_live_51Mabc'' \<and> main ''rk_live_51Mabc'' (Inr report) = Inl AttributeError"
  by (simp add: main_def str_getattr_def)

end
